theory Spec2Isabelle
  imports Main
begin

section \<open>httpcore/interfaces.py: the dispatcher, stream and semaphore interfaces\<close>

subsection \<open>Calls, exceptions and coroutines\<close>

text \<open>
  A Python call either returns a value or raises, and may change the state of the program
  (the objects it can reach) on the way. A call is a function from the state before to an
  outcome and the state after; \<open>Inl\<close> is the exception raised.
\<close>

datatype exn = NotImplementedError | ValueError | Exception string

type_synonym ('s, 'a) action = "'s \<Rightarrow> (exn + 'a) \<times> 's"

definition return :: "'a \<Rightarrow> ('s, 'a) action" where
  "return v = (\<lambda>s. (Inr v, s))"

definition raise :: "exn \<Rightarrow> ('s, 'a) action" where
  "raise e = (\<lambda>s. (Inl e, s))"

text \<open>
  One statement after another: the second runs on the state the first one left, and not at
  all when the first one raised.
\<close>

definition and_then :: "('s, 'a) action \<Rightarrow> ('a \<Rightarrow> ('s, 'b) action) \<Rightarrow> ('s, 'b) action" where
  "and_then f g = (\<lambda>s. case f s of (Inl e, s') \<Rightarrow> (Inl e, s') | (Inr v, s') \<Rightarrow> g v s')"

text \<open>
  Calling an \<open>async def\<close> function runs none of its body: it returns a coroutine object.
  \<open>await\<close> runs the body to its end. A plain \<open>def\<close> is an action that runs when called.
\<close>

datatype ('s, 'a) coroutine = Coroutine "('s, 'a) action"

fun await :: "('s, 'a) coroutine \<Rightarrow> ('s, 'a) action" where
  "await (Coroutine body) = body"

text \<open>Python's \<open>bytes\<close>: a sequence of 8-bit characters.\<close>

type_synonym bytes = "char list"

subsection \<open>Protocol\<close>

text \<open>
  \<^verbatim>\<open>
  class Protocol(str, enum.Enum):
      HTTP_11 = "HTTP/1.1"
      HTTP_2 = "HTTP/2"
  \<close>
  The members of the enumeration, the string each one carries, and the lookup by value
  \<open>Protocol(s)\<close>, which raises \<open>ValueError\<close> for a string that is no member's value.
\<close>

datatype Protocol = HTTP_11 | HTTP_2

fun Protocol_value :: "Protocol \<Rightarrow> string" where
  "Protocol_value HTTP_11 = ''HTTP/1.1''"
| "Protocol_value HTTP_2 = ''HTTP/2''"

definition Protocol_members :: "Protocol list" where
  "Protocol_members = [HTTP_11, HTTP_2]"

definition Protocol_call :: "string \<Rightarrow> exn + Protocol" where
  "Protocol_call s =
     (case filter (\<lambda>m. Protocol_value m = s) Protocol_members of
        [] \<Rightarrow> Inl ValueError
      | m # _ \<Rightarrow> Inr m)"

subsection \<open>BaseReader, BaseWriter, BasePoolSemaphore\<close>

text \<open>
  \<^verbatim>\<open>
  class BaseReader:
      async def read(self, n: int, timeout: OptionalTimeout = None) -> bytes:
          raise NotImplementedError()
  \<close>
\<close>

record ('s, 't) Reader =
  read :: "int \<Rightarrow> 't option \<Rightarrow> ('s, bytes) coroutine"

definition BaseReader :: "('s, 't) Reader" where
  "BaseReader = \<lparr> read = (\<lambda>n timeout. Coroutine (raise NotImplementedError)) \<rparr>"

text \<open>
  \<^verbatim>\<open>
  class BaseWriter:
      def write_no_block(self, data: bytes) -> None:
          raise NotImplementedError()
      async def write(self, data: bytes, timeout: OptionalTimeout = None) -> None:
          raise NotImplementedError()
      async def close(self) -> None:
          raise NotImplementedError()
  \<close>
  \<open>write_no_block\<close> is a plain \<open>def\<close> whose declared result is \<open>None\<close>.
\<close>

record ('s, 't) Writer =
  write_no_block :: "bytes \<Rightarrow> ('s, unit) action"
  "write" :: "bytes \<Rightarrow> 't option \<Rightarrow> ('s, unit) coroutine"
  close :: "('s, unit) coroutine"

definition BaseWriter :: "('s, 't) Writer" where
  "BaseWriter =
     \<lparr> write_no_block = (\<lambda>data. raise NotImplementedError),
       write = (\<lambda>data timeout. Coroutine (raise NotImplementedError)),
       close = Coroutine (raise NotImplementedError) \<rparr>"

text \<open>
  \<^verbatim>\<open>
  class BasePoolSemaphore:
      async def acquire(self) -> None:
          raise NotImplementedError()
      def release(self) -> None:
          raise NotImplementedError()
  \<close>
\<close>

record 's PoolSemaphore =
  acquire :: "('s, unit) coroutine"
  release :: "('s, unit) action"

definition BasePoolSemaphore :: "'s PoolSemaphore" where
  "BasePoolSemaphore =
     \<lparr> acquire = Coroutine (raise NotImplementedError),
       release = raise NotImplementedError \<rparr>"

subsection \<open>The request model used by the dispatcher\<close>

text \<open>
  \<open>Request\<close> is imported from the \<open>models\<close> module, which is not part of these sources.
  The dispatcher uses its constructor and its \<open>prepare\<close> method; both are parameters here.
  A request is a mutable object, so the constructor returns a reference \<open>'r\<close> into the
  state and \<open>prepare\<close> works on the state. \<open>RequestData\<close> is a byte string or some other
  body value of that module.
\<close>

datatype 'i RequestData = Bytes bytes | Body 'i

record ('s, 'r, 'u, 'i, 'q, 'h) models =
  Request_init :: "string \<Rightarrow> 'u \<Rightarrow> 'i RequestData \<Rightarrow> 'q option \<Rightarrow> 'h option \<Rightarrow> ('s, 'r) action"
  Request_prepare :: "'r \<Rightarrow> ('s, unit) action"

subsection \<open>Dispatcher\<close>

text \<open>
  The methods a subclass overrides are the fields of the object: \<open>self.send\<close> is whatever
  the object at hand has there. \<open>request\<close>, \<open>__aenter__\<close> and \<open>__aexit__\<close> are the base
  class's own code and call the fields of \<open>self\<close>.
\<close>

record ('s, 'r, 'c, 't, 'p) Dispatcher =
  prepare_request :: "'r \<Rightarrow> ('s, unit) action"
  send :: "'r \<Rightarrow> bool \<Rightarrow> 'c option \<Rightarrow> 't option \<Rightarrow> ('s, 'p) coroutine"
  close :: "('s, unit) coroutine"

text \<open>
  \<^verbatim>\<open>
  def prepare_request(self, request: Request) -> None:
      request.prepare()

  async def send(self, request, stream=False, ssl=None, timeout=None) -> Response:
      raise NotImplementedError()

  async def close(self) -> None:
      pass
  \<close>
\<close>

definition Dispatcher_prepare_request ::
  "('s, 'r, 'u, 'i, 'q, 'h) models \<Rightarrow> 'r \<Rightarrow> ('s, unit) action" where
  "Dispatcher_prepare_request M request =
     and_then (Request_prepare M request) (\<lambda>_. return ())"

definition Dispatcher_send ::
  "'r \<Rightarrow> bool \<Rightarrow> 'c option \<Rightarrow> 't option \<Rightarrow> ('s, 'p) coroutine" where
  "Dispatcher_send request stream ssl timeout = Coroutine (raise NotImplementedError)"

definition Dispatcher_close :: "('s, unit) coroutine" where
  "Dispatcher_close = Coroutine (return ())"

definition Dispatcher_base ::
  "('s, 'r, 'u, 'i, 'q, 'h) models \<Rightarrow> ('s, 'r, 'c, 't, 'p) Dispatcher" where
  "Dispatcher_base M =
     \<lparr> prepare_request = Dispatcher_prepare_request M,
       send = Dispatcher_send,
       close = Dispatcher_close \<rparr>"

text \<open>
  \<^verbatim>\<open>
  async def request(self, method, url, *, data=b"", query_params=None, headers=None,
                    stream=False, ssl=None, timeout=None) -> Response:
      request = Request(method, url, data=data, query_params=query_params, headers=headers)
      self.prepare_request(request)
      response = await self.send(request, stream=stream, ssl=ssl, timeout=timeout)
      return response
  \<close>
  The body, with every parameter bound.
\<close>

definition request ::
  "('s, 'r, 'u, 'i, 'q, 'h) models \<Rightarrow> ('s, 'r, 'c, 't, 'p) Dispatcher \<Rightarrow>
   string \<Rightarrow> 'u \<Rightarrow> 'i RequestData \<Rightarrow> 'q option \<Rightarrow> 'h option \<Rightarrow>
   bool \<Rightarrow> 'c option \<Rightarrow> 't option \<Rightarrow> ('s, 'p) coroutine" where
  "request M self method url data query_params headers stream ssl timeout =
     Coroutine
       (and_then (Request_init M method url data query_params headers) (\<lambda>request.
        and_then (prepare_request self request) (\<lambda>_.
        and_then (await (send self request stream ssl timeout)) (\<lambda>response.
        return response))))"

text \<open>
  The parameters after \<open>*\<close> are keyword-only and each has a default. A call site gives a
  keyword or leaves it out (\<open>None\<close> in the record below); binding the parameters puts the
  default of the signature where the keyword is left out.
\<close>

record ('i, 'q, 'h, 'c, 't) request_kwargs =
  kw_data :: "'i RequestData option"
  kw_query_params :: "'q option option"
  kw_headers :: "'h option option"
  kw_stream :: "bool option"
  kw_ssl :: "'c option option"
  kw_timeout :: "'t option option"

definition no_kwargs :: "('i, 'q, 'h, 'c, 't) request_kwargs" where
  "no_kwargs =
     \<lparr> kw_data = None, kw_query_params = None, kw_headers = None,
       kw_stream = None, kw_ssl = None, kw_timeout = None \<rparr>"

fun bind_default :: "'a \<Rightarrow> 'a option \<Rightarrow> 'a" where
  "bind_default d None = d"
| "bind_default d (Some v) = v"

definition request_call ::
  "('s, 'r, 'u, 'i, 'q, 'h) models \<Rightarrow> ('s, 'r, 'c, 't, 'p) Dispatcher \<Rightarrow>
   string \<Rightarrow> 'u \<Rightarrow> ('i, 'q, 'h, 'c, 't) request_kwargs \<Rightarrow> ('s, 'p) coroutine" where
  "request_call M self method url kw =
     request M self method url
       (bind_default (Bytes []) (kw_data kw))
       (bind_default None (kw_query_params kw))
       (bind_default None (kw_headers kw))
       (bind_default False (kw_stream kw))
       (bind_default None (kw_ssl kw))
       (bind_default None (kw_timeout kw))"

text \<open>
  \<^verbatim>\<open>
  async def __aenter__(self) -> "Dispatcher":
      return self

  async def __aexit__(self, exc_type=None, exc_value=None, traceback=None) -> None:
      await self.close()
  \<close>
  The interpreter tests the result of \<open>__aexit__\<close> for truth, so the result is kept as
  the Python object it is: a function that ends without \<open>return\<close> gives \<open>None\<close>.
\<close>

datatype pyobject = PyNone | PyBool bool

fun truthy :: "pyobject \<Rightarrow> bool" where
  "truthy PyNone = False"
| "truthy (PyBool b) = b"

definition aenter ::
  "('s, 'r, 'c, 't, 'p) Dispatcher \<Rightarrow> ('s, ('s, 'r, 'c, 't, 'p) Dispatcher) coroutine" where
  "aenter self = Coroutine (return self)"

definition aexit ::
  "('s, 'r, 'c, 't, 'p) Dispatcher \<Rightarrow> 'et option \<Rightarrow> 'ev option \<Rightarrow> 'tb option \<Rightarrow>
   ('s, pyobject) coroutine" where
  "aexit self exc_type exc_value traceback =
     Coroutine (and_then (await (Dispatcher.close self)) (\<lambda>_. return PyNone))"

text \<open>
  The statement \<open>async with self as target: body\<close>, as the language defines it: the
  target is what awaiting \<open>__aenter__\<close> returns; when the body ends normally
  \<open>__aexit__(None, None, None)\<close> is awaited; when the body raises, \<open>__aexit__\<close> is awaited
  with the exception's type, value and traceback, and the exception is raised again unless
  the result is true. \<open>exc_info\<close> gives the three for an exception. The statement has no
  value when an exception was swallowed (\<open>None\<close> below).
\<close>

definition async_with ::
  "(exn \<Rightarrow> 'et \<times> 'ev \<times> 'tb) \<Rightarrow> ('s, 'r, 'c, 't, 'p) Dispatcher \<Rightarrow>
   (('s, 'r, 'c, 't, 'p) Dispatcher \<Rightarrow> ('s, 'a) action) \<Rightarrow> ('s, 'a option) action" where
  "async_with exc_info self body =
     and_then (await (aenter self)) (\<lambda>target s1.
       case body target s1 of
         (Inr v, s2) \<Rightarrow>
           and_then (await (aexit self (None :: 'et option) (None :: 'ev option)
                              (None :: 'tb option)))
             (\<lambda>_. return (Some v)) s2
       | (Inl e, s2) \<Rightarrow>
           (case exc_info e of
              (et, ev, tb) \<Rightarrow>
                and_then (await (aexit self (Some et) (Some ev) (Some tb)))
                  (\<lambda>swallow. if truthy swallow then return None else raise e) s2))"

section \<open>The concurrency gate of the specification\<close>

text \<open>
  Modelled from the spec: the counting permit gate of section 4.2. The sources hold only
  the abstract \<open>BasePoolSemaphore\<close>, whose two methods raise; the semaphore that counts
  is not among them. The gate has a capacity \<open>N\<close>; capacity 0 is refused at construction.
  \<open>acquire\<close> takes a permit, or suspends the caller when the \<open>N\<close> permits are exhausted;
  suspended callers resume in FIFO order as permits are released. \<open>release\<close> does not
  suspend; a release with no permit outstanding is the double release, a programming
  error, and leaves the gate as it was. Callers are named by numbers.
\<close>

datatype gate_error = InvalidCapacity | DoubleRelease

record Gate =
  capacity :: nat
  permits :: nat
  waiting :: "nat list"

text \<open>
  Modelled from the spec: construction of the gate ("capacity of 0 is invalid, fails fast
  at construction"), which the sources do not hold. A new gate has all \<open>N\<close> permits free
  and nobody waiting.
\<close>

definition Gate_new :: "nat \<Rightarrow> gate_error + Gate" where
  "Gate_new N =
     (if N = 0 then Inl InvalidCapacity
      else Inr \<lparr> capacity = N, permits = N, waiting = [] \<rparr>)"

datatype gate_event = Granted nat | Suspended nat | Released "nat option" | Refused

text \<open>
  Modelled from the spec: \<open>acquire\<close> by caller \<open>t\<close> on the counting gate, which the
  sources do not hold. A permit is free: the caller has it
  at once. None is free: the caller is suspended at the end of the queue.
\<close>

definition Gate_acquire :: "nat \<Rightarrow> Gate \<Rightarrow> gate_event \<times> Gate" where
  "Gate_acquire t g =
     (if 0 < permits g then (Granted t, g\<lparr>permits := permits g - 1\<rparr>)
      else (Suspended t, g\<lparr>waiting := waiting g @ [t]\<rparr>))"

text \<open>
  Modelled from the spec: \<open>release\<close> on the counting gate, which the sources do not
  hold. With callers suspended, the permit given back goes
  to the first of them, who resumes holding it (\<open>Released (Some w)\<close>); with none, the
  permit is free again; with every permit free already, the release is refused.
\<close>

definition Gate_release :: "Gate \<Rightarrow> gate_event \<times> Gate" where
  "Gate_release g =
     (case waiting g of
        w # ws \<Rightarrow> (Released (Some w), g\<lparr>waiting := ws\<rparr>)
      | [] \<Rightarrow>
          (if permits g < capacity g then (Released None, g\<lparr>permits := permits g + 1\<rparr>)
           else (Refused, g)))"

text \<open>
  Modelled from the spec: a sequence of acquire and release operations on one gate, which
  the sources do not hold. The operations run one after another, each on the gate the one
  before left, and the history lists what each one did.
\<close>

datatype gate_op = Acquire nat | Release

fun Gate_step :: "Gate \<Rightarrow> gate_op \<Rightarrow> gate_event \<times> Gate" where
  "Gate_step g (Acquire t) = Gate_acquire t g"
| "Gate_step g Release = Gate_release g"

fun Gate_run :: "Gate \<Rightarrow> gate_op list \<Rightarrow> gate_event list \<times> Gate" where
  "Gate_run g [] = ([], g)"
| "Gate_run g (x # xs) =
     (case Gate_step g x of
        (ev, g') \<Rightarrow> (case Gate_run g' xs of (evs, g'') \<Rightarrow> (ev # evs, g'')))"

text \<open>
  Modelled from the spec: the outstanding tickets of a history, successful acquires minus
  releases, a count the sources do not hold. An acquire succeeds when it is granted at once and when a suspended caller is
  resumed by a release; a refused release gives nothing back.
\<close>

fun acquires :: "gate_event list \<Rightarrow> nat" where
  "acquires [] = 0"
| "acquires (Granted t # evs) = Suc (acquires evs)"
| "acquires (Released (Some w) # evs) = Suc (acquires evs)"
| "acquires (ev # evs) = acquires evs"

fun releases :: "gate_event list \<Rightarrow> nat" where
  "releases [] = 0"
| "releases (Released w # evs) = Suc (releases evs)"
| "releases (ev # evs) = releases evs"

definition outstanding :: "gate_event list \<Rightarrow> int" where
  "outstanding evs = int (acquires evs) - int (releases evs)"

section \<open>A dispatcher that records its calls\<close>

text \<open>
  A concrete subclass and request model for running the base class's code: the state is
  the list of calls made so far, a request is named by the position of its construction
  in that list, \<open>send\<close> answers with a fixed response.
\<close>

datatype call =
  Request_called string string "unit RequestData" "string option" "string option"
| prepare_called nat
| send_called nat bool "string option" "nat option"
| close_called

definition recording_models :: "(call list, nat, string, unit, string, string) models" where
  "recording_models =
     \<lparr> Request_init = (\<lambda>method url data query_params headers log.
         (Inr (length log), log @ [Request_called method url data query_params headers])),
       Request_prepare = (\<lambda>r log. (Inr (), log @ [prepare_called r])) \<rparr>"

definition recording_dispatcher :: "(call list, nat, string, nat, string) Dispatcher" where
  "recording_dispatcher =
     \<lparr> prepare_request = Dispatcher_prepare_request recording_models,
       send = (\<lambda>r stream ssl timeout.
         Coroutine (\<lambda>log. (Inr ''response'', log @ [send_called r stream ssl timeout]))),
       close = Coroutine (\<lambda>log. (Inr (), log @ [close_called])) \<rparr>"

definition silent_dispatcher :: "(call list, nat, string, nat, string) Dispatcher" where
  "silent_dispatcher = Dispatcher_base recording_models"

section \<open>Properties\<close>

subsection \<open>Sequencing\<close>

lemma and_then_return_right: "and_then f return = f"
  by (rule ext) (simp add: and_then_def return_def split: prod.splits sum.splits)

lemma await_request:
  "await (request M self method url data query_params headers stream ssl timeout) =
     and_then (Request_init M method url data query_params headers) (\<lambda>r.
     and_then (prepare_request self r) (\<lambda>_. await (send self r stream ssl timeout)))"
  by (simp add: request_def and_then_return_right)

lemma request_call_no_kwargs:
  "request_call M self method url no_kwargs =
     request M self method url (Bytes []) None None False None None"
  by (simp add: request_call_def no_kwargs_def)

subsection \<open>Dispatcher.request\<close>

text \<open>
  C1. Awaiting \<open>request(method, url, data, query_params, headers, stream, ssl, timeout)\<close>
  constructs a \<open>Request\<close> from method, url, data, query_params and headers, then calls
  \<open>self.prepare_request\<close> on that request in the state the constructor left, then awaits
  \<open>self.send\<close> with the same request and the given stream, ssl and timeout in the state
  \<open>prepare_request\<close> left. The outcome and the final state are exactly those of \<open>send\<close>:
  nothing else runs. When the constructor or \<open>prepare_request\<close> raises, the exception is
  the outcome and the later steps do not run. This holds for every request model and
  every subclass.
\<close>

theorem request_constructs_prepares_sends:
  "await (request M self method url data query_params headers stream ssl timeout) s0 =
     (case Request_init M method url data query_params headers s0 of
        (Inl e, s1) \<Rightarrow> (Inl e, s1)
      | (Inr r, s1) \<Rightarrow>
          (case prepare_request self r s1 of
             (Inl e, s2) \<Rightarrow> (Inl e, s2)
           | (Inr u, s2) \<Rightarrow> await (send self r stream ssl timeout) s2))"
  by (simp add: await_request and_then_def split: prod.splits sum.splits)

theorem request_constructs_prepares_sends_witness:
  "await (request recording_models recording_dispatcher ''GET'' ''http://example.org/''
            (Bytes ''abc'') (Some ''page=1'') (Some ''accept'') True (Some ''tls'') (Some 5)) [] =
     (Inr ''response'',
      [Request_called ''GET'' ''http://example.org/'' (Bytes ''abc'') (Some ''page=1'')
         (Some ''accept''),
       prepare_called 0,
       send_called 0 True (Some ''tls'') (Some 5)])"
  using request_constructs_prepares_sends
    [of recording_models recording_dispatcher "''GET''" "''http://example.org/''"
        "Bytes ''abc''" "Some ''page=1''" "Some ''accept''" True "Some ''tls''" "Some 5" "[]"]
  by (simp add: recording_models_def recording_dispatcher_def Dispatcher_prepare_request_def
      and_then_def return_def)

text \<open>
  C9. A call of \<open>request\<close> that gives only method and url constructs the \<open>Request\<close>
  with \<open>data = b""\<close>, \<open>query_params = None\<close> and \<open>headers = None\<close>, and awaits \<open>send\<close> with
  \<open>stream = False\<close>, \<open>ssl = None\<close> and \<open>timeout = None\<close>.
\<close>

theorem request_defaults:
  "await (request_call M self method url no_kwargs) s0 =
     (case Request_init M method url (Bytes []) None None s0 of
        (Inl e, s1) \<Rightarrow> (Inl e, s1)
      | (Inr r, s1) \<Rightarrow>
          (case prepare_request self r s1 of
             (Inl e, s2) \<Rightarrow> (Inl e, s2)
           | (Inr u, s2) \<Rightarrow> await (send self r False None None) s2))"
  by (simp add: request_call_no_kwargs await_request and_then_def split: prod.splits sum.splits)

theorem request_defaults_witness:
  "await (request_call recording_models recording_dispatcher ''GET'' ''http://example.org/''
            no_kwargs) [] =
     (Inr ''response'',
      [Request_called ''GET'' ''http://example.org/'' (Bytes []) None None,
       prepare_called 0,
       send_called 0 False None None])"
  using request_defaults
    [of recording_models recording_dispatcher "''GET''" "''http://example.org/''" "[]"]
  by (simp add: recording_models_def recording_dispatcher_def Dispatcher_prepare_request_def
      and_then_def return_def)

text \<open>
  C7. \<open>prepare_request(request)\<close> of the base class is \<open>request.prepare()\<close> and nothing
  more: the same outcome and the same state, for every request model.
\<close>

theorem prepare_request_delegates:
  "prepare_request (Dispatcher_base M) r = Request_prepare M r"
  by (simp add: Dispatcher_base_def Dispatcher_prepare_request_def and_then_return_right)

subsection \<open>The dispatcher as a scoped resource\<close>

lemma await_aenter: "await (aenter self) s = (Inr self, s)"
  by (simp add: aenter_def return_def)

lemma await_aexit:
  "await (aexit self et ev tb) s =
     (case await (Dispatcher.close self) s of
        (Inl e, s') \<Rightarrow> (Inl e, s')
      | (Inr u, s') \<Rightarrow> (Inr PyNone, s'))"
  by (simp add: aexit_def and_then_def return_def split: prod.splits sum.splits)

lemma async_with_eq:
  "async_with exc_info self body s =
     (case body self s of
        (res, s2) \<Rightarrow>
          (case await (Dispatcher.close self) s2 of
             (Inl e', s3) \<Rightarrow> (Inl e', s3)
           | (Inr u, s3) \<Rightarrow> (map_sum id Some res, s3)))"
  by (simp add: async_with_def and_then_def await_aenter await_aexit return_def raise_def
      split: prod.splits sum.splits)

lemma close_base: "await (Dispatcher.close (Dispatcher_base M)) s = (Inr (), s)"
  by (simp add: Dispatcher_base_def Dispatcher_close_def return_def)

text \<open>
  C2. Awaiting \<open>__aenter__\<close> returns the dispatcher itself and changes nothing. Awaiting
  \<open>__aexit__\<close>, whatever exception information it is given, awaits \<open>self.close()\<close>. So in
  \<open>async with self as target: body\<close> the body runs with the dispatcher itself as target,
  and \<open>close()\<close> runs in the state the body left on both exit paths, the body having
  returned (\<open>res = Inr v\<close>) or raised (\<open>res = Inl e\<close>).
\<close>

theorem scope_enters_self_and_closes:
  "await (aenter self) s = (Inr self, s) \<and>
   await (aexit self exc_type exc_value traceback) s =
     and_then (await (Dispatcher.close self)) (\<lambda>_. return PyNone) s \<and>
   async_with exc_info self body s =
     (case body self s of
        (res, s2) \<Rightarrow>
          (case await (Dispatcher.close self) s2 of
             (Inl e', s3) \<Rightarrow> (Inl e', s3)
           | (Inr u, s3) \<Rightarrow> (map_sum id Some res, s3)))"
  by (simp add: await_aenter async_with_eq) (simp add: aexit_def)

theorem scope_enters_self_and_closes_witness:
  "async_with (\<lambda>e. (''Exception'', e, ())) recording_dispatcher
     (\<lambda>target. and_then (await (send target 0 False None None)) (\<lambda>_. return (7 :: nat))) [] =
     (Inr (Some 7), [send_called 0 False None None, close_called]) \<and>
   async_with (\<lambda>e. (''Exception'', e, ())) recording_dispatcher
     (\<lambda>target. and_then (await (send target 0 False None None))
        (\<lambda>_. (raise (Exception ''boom'') :: (call list, nat) action))) [] =
     (Inl (Exception ''boom''), [send_called 0 False None None, close_called])"
proof -
  have returns:
    "and_then (await (send recording_dispatcher 0 False None None)) (\<lambda>_. return (7 :: nat)) [] =
       (Inr 7, [send_called 0 False None None])"
    by (simp add: recording_dispatcher_def and_then_def return_def)
  have raises:
    "and_then (await (send recording_dispatcher 0 False None None))
       (\<lambda>_. (raise (Exception ''boom'') :: (call list, nat) action)) [] =
       (Inl (Exception ''boom''), [send_called 0 False None None])"
    by (simp add: recording_dispatcher_def and_then_def raise_def)
  have closes: "await (Dispatcher.close recording_dispatcher) log = (Inr (), log @ [close_called])"
    for log
    by (simp add: recording_dispatcher_def)
  from scope_enters_self_and_closes
      [of recording_dispatcher "[]" None None None "\<lambda>e. (''Exception'', e, ())"
          "\<lambda>target. and_then (await (send target 0 False None None))
             (\<lambda>_. return (7 :: nat))"]
  have normal:
    "async_with (\<lambda>e. (''Exception'', e, ())) recording_dispatcher
       (\<lambda>target. and_then (await (send target 0 False None None)) (\<lambda>_. return (7 :: nat))) [] =
     (case and_then (await (send recording_dispatcher 0 False None None))
             (\<lambda>_. return (7 :: nat)) [] of
        (res, s2) \<Rightarrow>
          (case await (Dispatcher.close recording_dispatcher) s2 of
             (Inl e', s3) \<Rightarrow> (Inl e', s3)
           | (Inr u, s3) \<Rightarrow> (map_sum id Some res, s3)))"
    by (rule conjunct2[OF conjunct2])
  from scope_enters_self_and_closes
      [of recording_dispatcher "[]" None None None "\<lambda>e. (''Exception'', e, ())"
          "\<lambda>target. and_then (await (send target 0 False None None))
             (\<lambda>_. (raise (Exception ''boom'') :: (call list, nat) action))"]
  have exceptional:
    "async_with (\<lambda>e. (''Exception'', e, ())) recording_dispatcher
       (\<lambda>target. and_then (await (send target 0 False None None))
          (\<lambda>_. (raise (Exception ''boom'') :: (call list, nat) action))) [] =
     (case and_then (await (send recording_dispatcher 0 False None None))
             (\<lambda>_. (raise (Exception ''boom'') :: (call list, nat) action)) [] of
        (res, s2) \<Rightarrow>
          (case await (Dispatcher.close recording_dispatcher) s2 of
             (Inl e', s3) \<Rightarrow> (Inl e', s3)
           | (Inr u, s3) \<Rightarrow> (map_sum id Some res, s3)))"
    by (rule conjunct2[OF conjunct2])
  show ?thesis
    unfolding normal exceptional returns raises by (simp add: closes)
qed

text \<open>
  C10. \<open>close()\<close> of the base class returns without raising and leaves the state as it
  was. \<open>__aexit__\<close> makes no use of the exception type, value and traceback it is given,
  and when it returns, it returns \<open>None\<close>, which is not true. So an exception raised by
  the body of \<open>async with\<close> is never swallowed: the statement raises, the body's exception
  or the one \<open>close()\<close> raised in its place; with the base class's \<open>close()\<close> it is the
  body's exception, in the state the body left.
\<close>

theorem base_close_noop_exit_never_swallows:
  "await (Dispatcher.close (Dispatcher_base M)) s = (Inr (), s) \<and>
   aexit self exc_type exc_value traceback = aexit self None None None \<and>
   (\<forall>v s'. await (aexit self exc_type exc_value traceback) s = (Inr v, s') \<longrightarrow>
      v = PyNone \<and> \<not> truthy v) \<and>
   (\<forall>e s2. body self s = (Inl e, s2) \<longrightarrow>
      async_with exc_info self body s =
        (case await (Dispatcher.close self) s2 of
           (Inl e', s3) \<Rightarrow> (Inl e', s3)
         | (Inr u, s3) \<Rightarrow> (Inl e, s3))) \<and>
   (\<forall>e s2. body' (Dispatcher_base M) s = (Inl e, s2) \<longrightarrow>
      async_with exc_info (Dispatcher_base M) body' s = (Inl e, s2))"
proof (intro conjI allI impI)
  show "await (Dispatcher.close (Dispatcher_base M)) s = (Inr (), s)"
    by (rule close_base)
  show "aexit self exc_type exc_value traceback = aexit self None None None"
    by (simp add: aexit_def)
next
  fix v s'
  assume "await (aexit self exc_type exc_value traceback) s = (Inr v, s')"
  then show "v = PyNone"
    by (auto simp: await_aexit split: prod.splits sum.splits)
  then show "\<not> truthy v" by simp
next
  fix e s2
  assume "body self s = (Inl e, s2)"
  then show "async_with exc_info self body s =
        (case await (Dispatcher.close self) s2 of
           (Inl e', s3) \<Rightarrow> (Inl e', s3)
         | (Inr u, s3) \<Rightarrow> (Inl e, s3))"
    by (simp add: async_with_eq split: prod.splits sum.splits)
next
  fix e s2
  assume "body' (Dispatcher_base M) s = (Inl e, s2)"
  then show "async_with exc_info (Dispatcher_base M) body' s = (Inl e, s2)"
    by (simp add: async_with_eq close_base)
qed

theorem base_close_noop_exit_never_swallows_witness:
  "await (Dispatcher.close silent_dispatcher) [prepare_called 0] = (Inr (), [prepare_called 0]) \<and>
   await (aexit recording_dispatcher (Some ''Exception'') (Some (Exception ''boom'')) (Some ()))
     [prepare_called 0] = (Inr PyNone, [prepare_called 0, close_called]) \<and>
   \<not> truthy PyNone \<and>
   async_with (\<lambda>e. (''Exception'', e, ())) recording_dispatcher
     (\<lambda>target. (raise (Exception ''boom'') :: (call list, nat) action)) [prepare_called 0] =
     (Inl (Exception ''boom''), [prepare_called 0, close_called]) \<and>
   async_with (\<lambda>e. (''Exception'', e, ())) silent_dispatcher
     (\<lambda>target. (raise (Exception ''boom'') :: (call list, nat) action)) [prepare_called 0] =
     (Inl (Exception ''boom''), [prepare_called 0])"
proof -
  have exit: "await (aexit recording_dispatcher (Some ''Exception'') (Some (Exception ''boom''))
     (Some ())) [prepare_called 0] = (Inr PyNone, [prepare_called 0, close_called])"
    by (simp add: aexit_def recording_dispatcher_def and_then_def return_def)
  have body: "(raise (Exception ''boom'') :: (call list, nat) action) [prepare_called 0] =
     (Inl (Exception ''boom''), [prepare_called 0])"
    by (simp add: raise_def)
  have closes: "await (Dispatcher.close recording_dispatcher) [prepare_called 0] =
     (Inr (), [prepare_called 0, close_called])"
    by (simp add: recording_dispatcher_def)
  note th = base_close_noop_exit_never_swallows
      [of recording_models "[prepare_called 0]" recording_dispatcher
          "Some ''Exception''" "Some (Exception ''boom'')" "Some ()"
          "\<lambda>target. raise (Exception ''boom'')" "\<lambda>e. (''Exception'', e, ())"
          "\<lambda>target. raise (Exception ''boom'')"]
  from th have noop:
    "await (Dispatcher.close (Dispatcher_base recording_models)) [prepare_called 0] =
       (Inr (), [prepare_called 0])"
    by (rule conjunct1)
  from th exit have falsy: "\<not> truthy PyNone"
    by blast
  from th body have general:
    "async_with (\<lambda>e. (''Exception'', e, ())) recording_dispatcher
       (\<lambda>target. (raise (Exception ''boom'') :: (call list, nat) action)) [prepare_called 0] =
     (case await (Dispatcher.close recording_dispatcher) [prepare_called 0] of
        (Inl e', s3) \<Rightarrow> (Inl e', s3)
      | (Inr u, s3) \<Rightarrow> (Inl (Exception ''boom''), s3))"
    by blast
  from th body have base:
    "async_with (\<lambda>e. (''Exception'', e, ())) (Dispatcher_base recording_models)
       (\<lambda>target. (raise (Exception ''boom'') :: (call list, nat) action)) [prepare_called 0] =
     (Inl (Exception ''boom''), [prepare_called 0])"
    by blast
  show ?thesis
    unfolding silent_dispatcher_def general base noop exit closes using falsy by simp
qed

subsection \<open>The stubs of the base classes\<close>

text \<open>
  C6. The base classes only stub the interface out: for every argument and in every
  state, awaiting the base \<open>Dispatcher.send\<close>, \<open>BaseReader.read\<close>, \<open>BaseWriter.write\<close>,
  \<open>BaseWriter.close\<close> and \<open>BasePoolSemaphore.acquire\<close>, and calling
  \<open>BaseWriter.write_no_block\<close> and \<open>BasePoolSemaphore.release\<close>, raises
  \<open>NotImplementedError\<close>; no value is returned and the state is as before.
\<close>

theorem base_stubs_raise:
  "await (send (Dispatcher_base M) r stream ssl timeout) s = (Inl NotImplementedError, s) \<and>
   await (read BaseReader n timeout') s = (Inl NotImplementedError, s) \<and>
   write_no_block BaseWriter data s = (Inl NotImplementedError, s) \<and>
   await (write BaseWriter data timeout') s = (Inl NotImplementedError, s) \<and>
   await (Writer.close BaseWriter) s = (Inl NotImplementedError, s) \<and>
   await (acquire BasePoolSemaphore) s = (Inl NotImplementedError, s) \<and>
   release BasePoolSemaphore s = (Inl NotImplementedError, s)"
  by (simp add: Dispatcher_base_def Dispatcher_send_def BaseReader_def BaseWriter_def
      BasePoolSemaphore_def raise_def)

text \<open>
  C4, as the code has it. \<open>write_no_block(data)\<close> is a plain call whose declared result is
  \<open>None\<close>, not a count of bytes. In the base writer it raises \<open>NotImplementedError\<close> at
  once for every \<open>data\<close>: nothing is written, nothing is returned, the state is as before.
\<close>

theorem write_no_block_base_raises:
  "write_no_block BaseWriter data s = (Inl NotImplementedError, s)"
  by (simp add: BaseWriter_def raise_def)

text \<open>
  C4, as the claim has it, fails: for the three bytes \<open>abc\<close> the call of the base writer's
  \<open>write_no_block\<close> returns no value at all, so no number of bytes written.
\<close>

theorem write_no_block_returns_no_count:
  "\<not> (\<exists>v s'. write_no_block (BaseWriter :: (unit, nat) Writer) ''abc'' () = (Inr v, s'))"
  by (simp add: BaseWriter_def raise_def)

subsection \<open>Protocol\<close>

lemma Protocol_call_eq:
  "Protocol_call s =
     (if s = ''HTTP/1.1'' then Inr HTTP_11
      else if s = ''HTTP/2'' then Inr HTTP_2 else Inl ValueError)"
  by (simp add: Protocol_call_def Protocol_members_def)

text \<open>
  C8. \<open>Protocol\<close> has exactly the two members \<open>HTTP_11\<close> and \<open>HTTP_2\<close>, which differ; they
  carry the strings \<open>HTTP/1.1\<close> and \<open>HTTP/2\<close>; the members listed are all the values of the
  type, so nothing that produces or accepts a \<open>Protocol\<close> meets a third one; and the
  lookup by value gives a member for these two strings and raises \<open>ValueError\<close> for every
  other string. A member is a value: it has no state that could change.
\<close>

theorem Protocol_closed:
  "(\<forall>p. p = HTTP_11 \<or> p = HTTP_2) \<and> HTTP_11 \<noteq> HTTP_2 \<and>
   set Protocol_members = UNIV \<and> distinct Protocol_members \<and>
   Protocol_value HTTP_11 = ''HTTP/1.1'' \<and> Protocol_value HTTP_2 = ''HTTP/2'' \<and>
   (\<forall>s. Protocol_call s =
      (if s = Protocol_value HTTP_11 then Inr HTTP_11
       else if s = Protocol_value HTTP_2 then Inr HTTP_2 else Inl ValueError))"
proof -
  have two: "p = HTTP_11 \<or> p = HTTP_2" for p by (cases p) simp_all
  then have "set Protocol_members = UNIV"
    by (auto simp: Protocol_members_def)
  with two show ?thesis by (simp add: Protocol_call_eq) (simp add: Protocol_members_def)
qed

subsection \<open>The gate\<close>

lemma outstanding_Cons: "outstanding (ev # evs) = outstanding [ev] + outstanding evs"
proof (cases ev)
  case (Released w)
  then show ?thesis by (cases w) (simp_all add: outstanding_def)
qed (simp_all add: outstanding_def)

lemma Gate_step_net:
  assumes "permits g \<le> capacity g" and "Gate_step g x = (ev, g')"
  shows "capacity g' = capacity g \<and> permits g' \<le> capacity g \<and>
         outstanding [ev] = int (permits g) - int (permits g')"
proof (cases x)
  case (Acquire t)
  with assms show ?thesis
    by (auto simp: Gate_acquire_def outstanding_def split: if_splits)
next
  case Release
  with assms show ?thesis
    by (auto simp: Gate_release_def outstanding_def split: if_splits list.splits)
qed

lemma Gate_run_net:
  "permits g \<le> capacity g \<Longrightarrow> Gate_run g xs = (evs, g') \<Longrightarrow>
   capacity g' = capacity g \<and> permits g' \<le> capacity g \<and>
   outstanding evs = int (permits g) - int (permits g')"
proof (induction xs arbitrary: g evs g')
  case Nil
  then show ?case by (simp add: outstanding_def)
next
  case (Cons x xs)
  obtain ev g1 where step: "Gate_step g x = (ev, g1)" by (cases "Gate_step g x")
  obtain evs1 g2 where run: "Gate_run g1 xs = (evs1, g2)" by (cases "Gate_run g1 xs")
  from Cons.prems(2) step run have evs: "evs = ev # evs1" and g': "g' = g2" by simp_all
  from Gate_step_net[OF Cons.prems(1) step]
  have s1: "capacity g1 = capacity g" and s2: "permits g1 \<le> capacity g"
    and s3: "outstanding [ev] = int (permits g) - int (permits g1)" by simp_all
  from s1 s2 have "permits g1 \<le> capacity g1" by simp
  from Cons.IH[OF this run]
  have r1: "capacity g2 = capacity g1" and r2: "permits g2 \<le> capacity g1"
    and r3: "outstanding evs1 = int (permits g1) - int (permits g2)" by simp_all
  have "outstanding evs = outstanding [ev] + outstanding evs1"
    unfolding evs by (rule outstanding_Cons)
  with s1 s2 s3 r1 r2 r3 g' show ?case by simp
qed

lemma Gate_run_take: "take k (fst (Gate_run g xs)) = fst (Gate_run g (take k xs))"
proof (induction xs arbitrary: g k)
  case Nil
  then show ?case by simp
next
  case (Cons x xs)
  show ?case
  proof (cases k)
    case 0
    then show ?thesis by simp
  next
    case (Suc j)
    obtain ev g1 where step: "Gate_step g x = (ev, g1)" by (cases "Gate_step g x")
    from Cons.IH[of j g1] Suc step show ?thesis
      by (simp add: case_prod_beta)
  qed
qed

text \<open>
  C3. For a gate constructed with capacity \<open>N\<close> and every sequence of acquire and release
  operations on it, at every point of the history (after any number \<open>k\<close> of its events)
  the outstanding tickets, successful acquires minus releases, are at most \<open>N\<close>, and
  never negative.
\<close>

theorem Gate_outstanding_within_capacity:
  assumes "Gate_new N = Inr g0"
  shows "0 \<le> outstanding (take k (fst (Gate_run g0 ops))) \<and>
         outstanding (take k (fst (Gate_run g0 ops))) \<le> int N"
proof -
  from assms have g0: "capacity g0 = N" "permits g0 = N"
    by (auto simp: Gate_new_def split: if_splits)
  obtain evs g' where run: "Gate_run g0 (take k ops) = (evs, g')"
    by (cases "Gate_run g0 (take k ops)")
  from g0 have "permits g0 \<le> capacity g0" by simp
  from Gate_run_net[OF this run] g0
  have "permits g' \<le> N" and "outstanding evs = int N - int (permits g')" by simp_all
  moreover have "take k (fst (Gate_run g0 ops)) = evs"
    by (simp add: Gate_run_take run)
  ultimately show ?thesis by simp
qed

theorem Gate_outstanding_within_capacity_witness:
  "Gate_new 1 = Inr \<lparr>capacity = 1, permits = 1, waiting = []\<rparr> \<and>
   fst (Gate_run \<lparr>capacity = 1, permits = 1, waiting = []\<rparr>
          [Acquire 1, Acquire 2, Release, Release, Release]) =
     [Granted 1, Suspended 2, Released (Some 2), Released None, Refused] \<and>
   outstanding [Granted 1, Suspended 2, Released (Some 2)] = 1 \<and>
   0 \<le> outstanding (take 3 (fst (Gate_run \<lparr>capacity = 1, permits = 1, waiting = []\<rparr>
          [Acquire 1, Acquire 2, Release, Release, Release]))) \<and>
   outstanding (take 3 (fst (Gate_run \<lparr>capacity = 1, permits = 1, waiting = []\<rparr>
          [Acquire 1, Acquire 2, Release, Release, Release]))) \<le> int 1"
proof -
  have new: "Gate_new 1 = Inr \<lparr>capacity = 1, permits = 1, waiting = []\<rparr>"
    by (simp add: Gate_new_def)
  have run: "fst (Gate_run \<lparr>capacity = 1, permits = 1, waiting = []\<rparr>
          [Acquire 1, Acquire 2, Release, Release, Release]) =
     [Granted 1, Suspended 2, Released (Some 2), Released None, Refused]"
    by (simp add: Gate_acquire_def Gate_release_def)
  have out: "outstanding [Granted 1, Suspended 2, Released (Some 2)] = 1"
    by (simp add: outstanding_def)
  from Gate_outstanding_within_capacity
      [OF new, of 3 "[Acquire 1, Acquire 2, Release, Release, Release]"]
    new run out show ?thesis by simp
qed

subsection \<open>Suspension at the gate\<close>

lemma Gate_release_event:
  "fst (Gate_release g) =
     (case waiting g of
        w # ws \<Rightarrow> Released (Some w)
      | [] \<Rightarrow> if permits g < capacity g then Released None else Refused)"
  by (simp add: Gate_release_def split: list.splits)

lemma Gate_acquire_event:
  "fst (Gate_acquire t g) = (if 0 < permits g then Granted t else Suspended t)"
  by (simp add: Gate_acquire_def)

lemma Gate_release_after_acquire:
  assumes "permits g \<le> capacity g"
  shows "\<exists>w. fst (Gate_release (snd (Gate_acquire t g))) = Released w"
proof (cases "0 < permits g")
  case True
  with assms have "permits g - 1 < capacity g" by arith
  with True show ?thesis
    by (simp add: Gate_acquire_def Gate_release_event split: list.splits)
next
  case False
  then show ?thesis
    by (simp add: Gate_acquire_def Gate_release_event split: list.splits)
qed

text \<open>
  C5. \<open>acquire\<close> of a pool semaphore is a coroutine, something to await, and \<open>release\<close>
  is a plain call. On the gate, \<open>release\<close> never suspends its caller, in any state of the
  gate, and leaves the capacity as it was; \<open>acquire\<close> is where a caller may be suspended:
  it suspends exactly when no permit is free and grants at once exactly when one is.
  \<open>release\<close> can be called after an acquire that did not run to a held permit as well
  as after one that did: on a gate within its capacity, the release that follows any
  acquire, granted or suspended, is served and not refused.
\<close>

theorem Gate_release_never_suspends:
  "(\<exists>body. acquire P = Coroutine body) \<and>
   (\<forall>u. fst (Gate_release g) \<noteq> Suspended u) \<and>
   capacity (snd (Gate_release g)) = capacity g \<and>
   (fst (Gate_acquire t g) = Suspended t \<longleftrightarrow> permits g = 0) \<and>
   (fst (Gate_acquire t g) = Granted t \<longleftrightarrow> 0 < permits g) \<and>
   (permits g \<le> capacity g \<longrightarrow>
      (\<exists>w. fst (Gate_release (snd (Gate_acquire t g))) = Released w))"
proof (intro conjI allI impI)
  show "\<exists>body. acquire P = Coroutine body"
    by (cases "acquire P") simp
  show "fst (Gate_release g) \<noteq> Suspended u" for u
    by (simp add: Gate_release_event split: list.splits)
  show "capacity (snd (Gate_release g)) = capacity g"
    by (simp add: Gate_release_def split: list.splits)
  show "(fst (Gate_acquire t g) = Suspended t) = (permits g = 0)"
    by (simp add: Gate_acquire_event)
  show "(fst (Gate_acquire t g) = Granted t) = (0 < permits g)"
    by (simp add: Gate_acquire_event)
next
  assume "permits g \<le> capacity g"
  then show "\<exists>w. fst (Gate_release (snd (Gate_acquire t g))) = Released w"
    by (rule Gate_release_after_acquire)
qed

theorem Gate_release_never_suspends_witness:
  "acquire (BasePoolSemaphore :: unit PoolSemaphore) = Coroutine (raise NotImplementedError) \<and>
   Gate_acquire 2 \<lparr>capacity = 1, permits = 0, waiting = []\<rparr> =
     (Suspended 2, \<lparr>capacity = 1, permits = 0, waiting = [2]\<rparr>) \<and>
   Gate_release \<lparr>capacity = 1, permits = 0, waiting = [2]\<rparr> =
     (Released (Some 2), \<lparr>capacity = 1, permits = 0, waiting = []\<rparr>) \<and>
   (\<exists>w. fst (Gate_release (snd (Gate_acquire 2 \<lparr>capacity = 1, permits = 0, waiting = []\<rparr>))) =
      Released w)"
proof -
  have base: "acquire (BasePoolSemaphore :: unit PoolSemaphore) =
      Coroutine (raise NotImplementedError)"
    by (simp add: BasePoolSemaphore_def)
  have acq: "Gate_acquire 2 \<lparr>capacity = 1, permits = 0, waiting = []\<rparr> =
     (Suspended 2, \<lparr>capacity = 1, permits = 0, waiting = [2]\<rparr>)"
    by (simp add: Gate_acquire_def)
  have rel: "Gate_release \<lparr>capacity = 1, permits = 0, waiting = [2]\<rparr> =
     (Released (Some 2), \<lparr>capacity = 1, permits = 0, waiting = []\<rparr>)"
    by (simp add: Gate_release_def)
  have within: "permits \<lparr>capacity = 1, permits = 0, waiting = []\<rparr> \<le>
      capacity \<lparr>capacity = 1, permits = 0, waiting = []\<rparr>"
    by simp
  from Gate_release_never_suspends
      [of "BasePoolSemaphore :: unit PoolSemaphore"
          "\<lparr>capacity = 1, permits = 0, waiting = []\<rparr>" 2] within
  have served: "\<exists>w. fst (Gate_release (snd (Gate_acquire 2
      \<lparr>capacity = 1, permits = 0, waiting = []\<rparr>))) = Released w"
    by blast
  from base acq rel served show ?thesis by blast
qed

end
